theory Spec2Isabelle
  imports Complex_Main "HOL-Library.Word"
begin

unbundle bit_operations_syntax

section \<open>The pH driver (src/src/sensor/sensor_ph.cpp)\<close>

subsection \<open>Build-time constants and collaborators\<close>

text \<open>
  A pH value is a C \<^verbatim>\<open>float\<close>: a finite number, an infinity or NaN. The finite
  values are taken from the reals, so every binary32 number is among them. \<open>float_lt\<close>
  and \<open>float_gt\<close> are C's \<^verbatim>\<open><\<close> and \<^verbatim>\<open>>\<close> against a finite bound: both are false
  of NaN.
\<close>

datatype cfloat = Finite real | PInf | MInf | NaN

fun float_lt :: "cfloat \<Rightarrow> real \<Rightarrow> bool" where
  "float_lt (Finite x) r = (x < r)"
| "float_lt MInf r = True"
| "float_lt PInf r = False"
| "float_lt NaN r = False"

fun float_gt :: "cfloat \<Rightarrow> real \<Rightarrow> bool" where
  "float_gt (Finite x) r = (x > r)"
| "float_gt PInf r = True"
| "float_gt MInf r = False"
| "float_gt NaN r = False"

text \<open>
  The driver reads its constants from \<^verbatim>\<open>config/config.h\<close>, which is not among the
  sources. They are parameters of the model: every definition below takes the record
  \<open>c\<close> of their values. The other \<^verbatim>\<open>float\<close> quantities (the temperature, the ADC
  average and the voltage handed to the library) are reals with exact arithmetic;
  they are only logged and passed on, and a zero \<^verbatim>\<open>PH_READ_SAMPLES\<close> or
  \<^verbatim>\<open>PH_ADC_RESOLUTION\<close>, where C divides by zero, is outside the model.
\<close>

record config =
  PH_DEFAULT_TEMPERATURE :: real
  PH_POWER_PIN :: nat
  PH_ANALOG_PIN :: nat
  PH_POWER_ON_DELAY_MS :: nat
  PH_READ_SAMPLES :: int
  PH_READ_DELAY_MS :: nat
  PH_ADC_RESOLUTION :: real
  PH_REFERENCE_VOLTAGE :: real
  PH_MIN :: real
  PH_MAX :: real
  SENSOR_ERROR_PH :: cfloat
  SENSOR_PH_NAME :: string

text \<open>
  What the hardware and the DFRobot\_PH library answer during one call of a driver
  function: \<open>analogRead k\<close> is the value of the \<open>k\<close>-th \<^verbatim>\<open>analogRead(PH_ANALOG_PIN)\<close>
  of the call, \<open>readPH\<close> is \<^verbatim>\<open>ph_sensor.readPH(voltage, temperature)\<close>, and
  \<open>serial_available\<close> is \<^verbatim>\<open>Serial.available()\<close>. \<open>scale_to_uint16 x\<close> is what the
  platform computes for \<^verbatim>\<open>(uint16_t)(x * 100)\<close>: a binary32 product, then the
  conversion to 16 bits, which C defines only when the truncated product is within
  \<open>0..65535\<close>. The model fixes neither the rounding nor the result outside that range.
\<close>

record hw =
  analogRead :: "nat \<Rightarrow> nat"
  readPH :: "real \<Rightarrow> real \<Rightarrow> cfloat"
  serial_available :: int
  scale_to_uint16 :: "cfloat \<Rightarrow> 16 word"

datatype pin_mode = INPUT | OUTPUT

datatype printf_arg = ArgInt int | ArgFloat cfloat | ArgStr string

text \<open>
  The effects the driver has on its collaborators, in the order they happen:
  \<^verbatim>\<open>Serial.println\<close> and \<^verbatim>\<open>Serial.printf\<close> (format and arguments, the trailing
  newline of the format left out), \<^verbatim>\<open>pinMode\<close>, \<^verbatim>\<open>delay\<close>, and the calls
  \<^verbatim>\<open>ph_sensor.begin()\<close> and \<^verbatim>\<open>ph_sensor.calibration(voltage, temperature)\<close>.
\<close>

datatype event =
    Println string
  | Printf string "printf_arg list"
  | PinMode nat pin_mode
  | Delay nat
  | PhBegin
  | PhCalibration real real

text \<open>
  The file's static variables (\<open>sensor_available\<close>, \<open>sensor_powered\<close>,
  \<open>temperature\<close>), the level each \<^verbatim>\<open>digitalWrite\<close> left on a pin (\<open>True\<close> is
  \<^verbatim>\<open>HIGH\<close>), and the trace of the other effects.
\<close>

record ph_driver =
  sensor_available :: bool
  sensor_powered :: bool
  temperature :: real
  pin_level :: "nat \<Rightarrow> bool"
  trace :: "event list"

text \<open>
  \<^verbatim>\<open>sensor_data_t\<close> and \<^verbatim>\<open>payload_config_t\<close> are declared in \<^verbatim>\<open>config.h\<close>; the
  driver uses the field \<^verbatim>\<open>ph\<close> of the first and the byte array \<^verbatim>\<open>buffer\<close> of the
  second. Their other fields are the records' extension part. A pointer argument is
  an \<open>option\<close>: \<open>None\<close> is the null pointer.
\<close>

record sensor_data =
  ph :: cfloat

record payload_config =
  buffer :: "8 word list"

definition emit :: "event list \<Rightarrow> ph_driver \<Rightarrow> ph_driver" where
  "emit es s = s\<lparr>trace := trace s @ es\<rparr>"

subsection \<open>Power rail\<close>

definition sensor_ph_power_on :: "config \<Rightarrow> ph_driver \<Rightarrow> ph_driver" where
  "sensor_ph_power_on c s =
     (if sensor_powered s then s
      else emit [Println ''pH: Alimentacion de sensores activada'',
                 Printf ''pH: Esperando %d ms para estabilizacion...''
                   [ArgInt (int (PH_POWER_ON_DELAY_MS c))],
                 Delay (PH_POWER_ON_DELAY_MS c)]
             ((emit [PinMode (PH_POWER_PIN c) OUTPUT] s)
                \<lparr>pin_level := (pin_level s)(PH_POWER_PIN c := True),
                 sensor_powered := True\<rparr>))"

definition sensor_ph_power_off :: "config \<Rightarrow> ph_driver \<Rightarrow> ph_driver" where
  "sensor_ph_power_off c s =
     (if \<not> sensor_powered s then s
      else emit [Println ''pH: Alimentacion de sensores desactivada'', Delay 1000]
             (s\<lparr>pin_level := (pin_level s)(PH_POWER_PIN c := False),
                sensor_powered := False\<rparr>))"

subsection \<open>Initialisation and availability\<close>

definition sensor_ph_init :: "config \<Rightarrow> ph_driver \<Rightarrow> bool \<times> ph_driver" where
  "sensor_ph_init c s =
     (True,
      (emit [Println ''pH: Iniciando sensor de pH DFRobot...'',
             PinMode (PH_ANALOG_PIN c) INPUT,
             PinMode (PH_POWER_PIN c) OUTPUT,
             PhBegin,
             Printf ''pH: Pin ADC configurado en GPIO%d'' [ArgInt (int (PH_ANALOG_PIN c))],
             Printf ''pH: Pin de alimentacion configurado en GPIO%d''
               [ArgInt (int (PH_POWER_PIN c))],
             Println ''pH: Libreria DFRobot_PH inicializada''] s)
        \<lparr>sensor_available := True\<rparr>)"

definition sensor_ph_is_available :: "ph_driver \<Rightarrow> bool" where
  "sensor_ph_is_available s = sensor_available s"

definition sensor_ph_retry_init :: "config \<Rightarrow> ph_driver \<Rightarrow> bool \<times> ph_driver" where
  "sensor_ph_retry_init c s =
     (if sensor_available s then (True, s)
      else sensor_ph_init c
             (emit [Println ''Reintentando inicializacion del sensor de pH...''] s))"

definition sensor_ph_set_available_for_testing :: "bool \<Rightarrow> ph_driver \<Rightarrow> ph_driver" where
  "sensor_ph_set_available_for_testing available s =
     emit [Printf ''TESTING: Sensor pH forzado a %s''
             [ArgStr (if available then ''disponible'' else ''no disponible'')]]
       (s\<lparr>sensor_available := available\<rparr>)"

definition sensor_ph_get_name :: "config \<Rightarrow> string" where
  "sensor_ph_get_name c = SENSOR_PH_NAME c"

subsection \<open>Reading\<close>

text \<open>
  The sampling loop of \<open>read_ph_value\<close>: \<open>n\<close> iterations are left, \<open>i\<close> samples are
  taken; each iteration adds one sample to the \<^verbatim>\<open>uint32_t\<close> sum and waits.
\<close>

primrec sample_loop :: "config \<Rightarrow> hw \<Rightarrow> nat \<Rightarrow> nat \<Rightarrow> 32 word \<times> ph_driver \<Rightarrow> 32 word \<times> ph_driver" where
  "sample_loop c e 0 i acc = acc"
| "sample_loop c e (Suc n) i acc =
     sample_loop c e n (Suc i)
       (fst acc + word_of_nat (analogRead e i), emit [Delay (PH_READ_DELAY_MS c)] (snd acc))"

definition read_ph_value :: "config \<Rightarrow> hw \<Rightarrow> ph_driver \<Rightarrow> cfloat \<times> ph_driver" where
  "read_ph_value c e s =
     (let (total, s1) = sample_loop c e (nat (PH_READ_SAMPLES c)) 0 (0, s);
          avg_reading = real (unat total) / real_of_int (PH_READ_SAMPLES c);
          voltage = (avg_reading / PH_ADC_RESOLUTION c) * PH_REFERENCE_VOLTAGE c;
          s2 = emit [Printf ''pH: Lectura ADC promedio = %.1f, Voltaje = %.3f V''
                       [ArgFloat (Finite avg_reading), ArgFloat (Finite voltage)]] s1
      in (readPH e voltage (temperature s2), s2))"

definition sensor_ph_set_temperature :: "real \<Rightarrow> ph_driver \<Rightarrow> ph_driver" where
  "sensor_ph_set_temperature temp s =
     (if temp \<ge> -50 \<and> temp \<le> 100
      then emit [Printf ''pH: Temperatura actualizada a %.2f grados C'' [ArgFloat (Finite temp)]]
             (s\<lparr>temperature := temp\<rparr>)
      else s)"

text \<open>
  \<open>sensor_ph_read_all\<close> returns its result, the driver's state and what the caller's
  record holds afterwards (\<open>None\<close> for a null pointer).
\<close>

definition sensor_ph_read_all ::
  "config \<Rightarrow> hw \<Rightarrow> ph_driver \<Rightarrow> 'a sensor_data_scheme option
     \<Rightarrow> bool \<times> ph_driver \<times> 'a sensor_data_scheme option" where
  "sensor_ph_read_all c e s data =
     (if \<not> sensor_available s \<or> data = None then (False, s, data)
      else
        let s1 = sensor_ph_power_on c s;
            (v, s2) = read_ph_value c e s1;
            s3 = (if float_lt v (PH_MIN c) \<or> float_gt v (PH_MAX c)
                  then emit [Printf ''pH: ADVERTENCIA - Lectura fuera de rango: %.2f''
                               [ArgFloat v]] s2
                  else s2);
            data' = map_option (\<lambda>d. d\<lparr>ph := v\<rparr>) data;
            s4 = emit [Printf ''pH: Valor de pH = %.2f'' [ArgFloat v]] s3;
            s5 = sensor_ph_power_off c s4
        in (True, s5, data'))"

text \<open>Dropping the fraction of a number (rounding towards zero).\<close>

definition trunc :: "real \<Rightarrow> int" where
  "trunc x = (if 0 \<le> x then \<lfloor>x\<rfloor> else \<lceil>x\<rceil>)"

text \<open>
  The part of \<open>sensor_ph_get_payload\<close> after the read (lines 157 to 167): \<open>ok\<close> is
  what \<open>sensor_ph_read_all\<close> returned and \<open>d\<close> what the local record holds after it.
  The two stores write \<^verbatim>\<open>ph_int >> 8\<close> to \<^verbatim>\<open>buffer[0]\<close> and \<^verbatim>\<open>ph_int & 0xFF\<close> to
  \<^verbatim>\<open>buffer[1]\<close>, each narrowed to a byte. A store past the end of \<open>buffer\<close> leaves
  the list as it is (in C it is outside the array); the theorems about the stored
  bytes assume a buffer of at least two bytes.
\<close>

definition ph_payload_after_read ::
  "config \<Rightarrow> hw \<Rightarrow> bool \<Rightarrow> 'a sensor_data_scheme \<Rightarrow> 'b payload_config_scheme
     \<Rightarrow> 8 word \<times> 'b payload_config_scheme" where
  "ph_payload_after_read c e ok d p =
     (let data = (if \<not> ok then d\<lparr>ph := SENSOR_ERROR_PH c\<rparr> else d);
          ph_int = scale_to_uint16 e (ph data)
      in (2, p\<lparr>buffer := (buffer p)[0 := ucast (drop_bit 8 ph_int),
                                     1 := ucast (ph_int AND 0xFF)]\<rparr>))"

text \<open>
  \<open>sensor_ph_get_payload\<close>: \<open>uninit\<close> is what the local \<^verbatim>\<open>sensor_data_t data\<close> holds
  before the read (it is not initialised); \<^verbatim>\<open>&data\<close> and, past the guard, \<^verbatim>\<open>config\<close>
  are not null, so both are read back with \<open>the\<close>.
\<close>

definition sensor_ph_get_payload ::
  "config \<Rightarrow> hw \<Rightarrow> ph_driver \<Rightarrow> 'a sensor_data_scheme \<Rightarrow> 'b payload_config_scheme option
     \<Rightarrow> 8 word \<times> ph_driver \<times> 'b payload_config_scheme option" where
  "sensor_ph_get_payload c e s uninit cfg =
     (if cfg = None \<or> \<not> sensor_available s then (0, s, cfg)
      else
        let (ok, s1, d) = sensor_ph_read_all c e s (Some uninit);
            (n, p) = ph_payload_after_read c e ok (the d) (the cfg)
        in (n, s1, Some p))"

subsection \<open>Calibration hook\<close>

text \<open>
  \<open>sensor_ph_process_serial\<close> takes one sample; \<^verbatim>\<open>PH_ADC_RESOLUTION\<close> is read as a
  floating constant, as in \<open>read_ph_value\<close>, so the quotient is not an integer
  division.
\<close>

definition sensor_ph_process_serial :: "config \<Rightarrow> hw \<Rightarrow> ph_driver \<Rightarrow> ph_driver" where
  "sensor_ph_process_serial c e s =
     (if \<not> sensor_available s then s
      else if serial_available e = 0 then s
      else
        let s1 = sensor_ph_power_on c s;
            raw = (word_of_nat (analogRead e 0) :: 32 word);
            voltage = (real (unat raw) / PH_ADC_RESOLUTION c) * PH_REFERENCE_VOLTAGE c;
            s2 = emit [PhCalibration voltage (temperature s1)] s1
        in sensor_ph_power_off c s2)"

text \<open>The events a call appended to the trace.\<close>

definition new_events :: "ph_driver \<Rightarrow> ph_driver \<Rightarrow> event list" where
  "new_events s s' = drop (length (trace s)) (trace s')"

section \<open>The decoder generator (src/src/ttn\_decoder\_generator.cpp)\<close>

subsection \<open>The build's sensor selection\<close>

text \<open>
  The preprocessor symbols the generator tests: each \<^verbatim>\<open>ENABLE_SENSOR_*\<close> is defined
  or not, and \<^verbatim>\<open>SHOW_TTN_DECODER\<close> is an integer (0 unless \<^verbatim>\<open>config.h\<close> sets it).
\<close>

record build =
  ENABLE_SENSOR_PH :: bool
  ENABLE_SENSOR_BME280 :: bool
  ENABLE_SENSOR_DS18B20 :: bool
  SHOW_TTN_DECODER :: int

subsection \<open>The emitted routine\<close>

text \<open>
  The generator prints the JavaScript of \<^verbatim>\<open>decodeUplink\<close> line by line. The model
  keeps the statements it prints, one constructor for each shape of statement:
  \<^item> \<open>Prologue\<close>: \<^verbatim>\<open>function decodeUplink(input) { var data = {}; var bytes = input.bytes; var offset = 0;\<close>
  \<^item> \<open>CheckLength n msg\<close>: \<^verbatim>\<open>if (bytes.length !== n) { return { data: data, warnings: [msg + bytes.length], errors: [] }; }\<close>
  \<^item> \<open>ByteField f\<close>: \<^verbatim>\<open>data.f = bytes[offset++];\<close>
  \<^item> \<open>U16Field f k\<close>: \<^verbatim>\<open>var f_raw = bytes[offset++] | (bytes[offset++] << 8); data.f = f_raw / k;\<close>
  \<^item> \<open>ReturnData\<close>: \<^verbatim>\<open>return { data: data }; }\<close>
  Comment lines, blank lines and the banners around the routine are not statements
  and are left out.
\<close>

datatype js_stmt =
    Prologue
  | CheckLength nat string
  | ByteField string
  | U16Field string real
  | ReturnData

definition print_decoder_header :: "js_stmt list" where
  "print_decoder_header = [Prologue]"

definition print_battery_percent_decoder :: "js_stmt list" where
  "print_battery_percent_decoder = [ByteField ''battery_percent'']"

definition print_ph_decoder :: "js_stmt list" where
  "print_ph_decoder = [U16Field ''ph'' 100]"

definition print_temperature_ext_decoder :: "js_stmt list" where
  "print_temperature_ext_decoder = [U16Field ''temperature_ext'' 100]"

definition print_temperature_water_decoder :: "js_stmt list" where
  "print_temperature_water_decoder = [U16Field ''temperature_water_1m'' 100]"

definition print_humidity_decoder :: "js_stmt list" where
  "print_humidity_decoder = [U16Field ''humidity'' 100]"

definition print_pressure_decoder :: "js_stmt list" where
  "print_pressure_decoder = [U16Field ''pressure'' 10]"

definition print_payload_validation :: "js_stmt list" where
  "print_payload_validation = [CheckLength 12 ''Payload size should be 12 bytes, got '']"

definition print_decoder_footer :: "js_stmt list" where
  "print_decoder_footer = [ReturnData]"

text \<open>\<open>print_configuration_info\<close> prints a summary before the routine and no statement of it.\<close>

definition print_configuration_info :: "js_stmt list" where
  "print_configuration_info = []"

definition generate_and_print_ttn_decoder :: "build \<Rightarrow> js_stmt list" where
  "generate_and_print_ttn_decoder b =
     (if SHOW_TTN_DECODER b = 0 then []
      else print_configuration_info
         @ print_decoder_header
         @ print_payload_validation
         @ print_battery_percent_decoder
         @ (if ENABLE_SENSOR_PH b then print_ph_decoder else [])
         @ (if ENABLE_SENSOR_BME280 b then print_temperature_ext_decoder else [])
         @ (if ENABLE_SENSOR_DS18B20 b then print_temperature_water_decoder else [])
         @ (if ENABLE_SENSOR_BME280 b then print_humidity_decoder @ print_pressure_decoder else [])
         @ print_decoder_footer)"

subsection \<open>What the emitted routine computes\<close>

text \<open>
  JavaScript values the routine handles: a number or \<^verbatim>\<open>undefined\<close> (an array read past
  the end). \<open>to_int32\<close> is the conversion the bit operators \<^verbatim>\<open>|\<close> and \<^verbatim>\<open><<\<close> apply to
  their operands (\<^verbatim>\<open>undefined\<close> becomes 0); their result is a signed 32-bit integer.
\<close>

datatype js_value = JsNumber real | JsUndefined

record js_state =
  js_bytes :: "8 word list"
  js_data :: "string \<rightharpoonup> js_value"
  js_offset :: nat

record js_result =
  res_data :: "string \<rightharpoonup> js_value"
  res_warnings :: "string list option"
  res_errors :: "string list option"

definition byte_at :: "8 word list \<Rightarrow> nat \<Rightarrow> js_value" where
  "byte_at bs i = (if i < length bs then JsNumber (real (unat (bs ! i))) else JsUndefined)"

fun to_int32 :: "js_value \<Rightarrow> 32 word" where
  "to_int32 (JsNumber x) = word_of_int (trunc x)"
| "to_int32 JsUndefined = 0"

text \<open>A length as JavaScript's string concatenation writes it: in decimal.\<close>

fun decimal :: "nat \<Rightarrow> string" where
  "decimal n =
     (if n < 10 then [''0123456789'' ! n]
      else decimal (n div 10) @ [''0123456789'' ! (n mod 10)])"

text \<open>
  One statement: the next state, or the object the routine returns at it. \<open>input\<close> is
  \<^verbatim>\<open>input.bytes\<close>.
\<close>

fun exec_stmt :: "8 word list \<Rightarrow> js_stmt \<Rightarrow> js_state \<Rightarrow> js_state + js_result" where
  "exec_stmt input Prologue st =
     Inl \<lparr>js_bytes = input, js_data = Map.empty, js_offset = 0\<rparr>"
| "exec_stmt input (CheckLength n msg) st =
     (if length (js_bytes st) \<noteq> n
      then Inr \<lparr>res_data = js_data st,
                res_warnings = Some [msg @ decimal (length (js_bytes st))],
                res_errors = Some []\<rparr>
      else Inl st)"
| "exec_stmt input (ByteField f) st =
     Inl (st\<lparr>js_data := (js_data st)(f \<mapsto> byte_at (js_bytes st) (js_offset st)),
             js_offset := js_offset st + 1\<rparr>)"
| "exec_stmt input (U16Field f k) st =
     (let raw = to_int32 (byte_at (js_bytes st) (js_offset st))
                OR push_bit 8 (to_int32 (byte_at (js_bytes st) (js_offset st + 1)))
      in Inl (st\<lparr>js_data := (js_data st)(f \<mapsto> JsNumber (real_of_int (sint raw) / k)),
                 js_offset := js_offset st + 2\<rparr>))"
| "exec_stmt input ReturnData st =
     Inr \<lparr>res_data = js_data st, res_warnings = None, res_errors = None\<rparr>"

fun exec_all :: "8 word list \<Rightarrow> js_stmt list \<Rightarrow> js_state \<Rightarrow> js_state + js_result" where
  "exec_all input [] st = Inl st"
| "exec_all input (x # xs) st =
     (case exec_stmt input x st of
        Inl st' \<Rightarrow> exec_all input xs st'
      | Inr r \<Rightarrow> Inr r)"

text \<open>
  A call of the routine the generator emitted for build \<open>b\<close>: \<open>None\<close> when the text
  ends without a \<^verbatim>\<open>return\<close> (nothing is emitted when \<^verbatim>\<open>SHOW_TTN_DECODER\<close> is 0).
\<close>

definition decodeUplink :: "build \<Rightarrow> 8 word list \<Rightarrow> js_result option" where
  "decodeUplink b input =
     (case exec_all input (generate_and_print_ttn_decoder b)
             \<lparr>js_bytes = [], js_data = Map.empty, js_offset = 0\<rparr> of
        Inl st \<Rightarrow> None
      | Inr r \<Rightarrow> Some r)"

text \<open>
  The bytes the emitted field decoders consume: the payload width the build's sensor
  selection implies.
\<close>

fun stmt_width :: "js_stmt \<Rightarrow> nat" where
  "stmt_width (ByteField f) = 1"
| "stmt_width (U16Field f k) = 2"
| "stmt_width x = 0"

definition expected_width :: "build \<Rightarrow> nat" where
  "expected_width b = sum_list (map stmt_width (generate_and_print_ttn_decoder b))"

text \<open>The pH field as the emitted routine decodes it from a two-byte slice.\<close>

definition decode_ph :: "8 word list \<Rightarrow> js_value option" where
  "decode_ph bs =
     (case exec_all bs print_ph_decoder \<lparr>js_bytes = bs, js_data = Map.empty, js_offset = 0\<rparr> of
        Inl st \<Rightarrow> js_data st ''ph''
      | Inr r \<Rightarrow> None)"

section \<open>Derived notions and sample inputs\<close>

text \<open>
  The value \<open>sensor_ph_read_all\<close> obtains from \<open>read_ph_value\<close>: the read runs in
  the state \<open>sensor_ph_power_on\<close> leaves.
\<close>

definition ph_reading :: "config \<Rightarrow> hw \<Rightarrow> ph_driver \<Rightarrow> cfloat" where
  "ph_reading c e s = fst (read_ph_value c e (sensor_ph_power_on c s))"

text \<open>
  A pH value within the plausible range \<^verbatim>\<open>[PH_MIN, PH_MAX]\<close>: a finite value between
  the bounds. Infinities and NaN are not within it.
\<close>

fun ph_plausible :: "config \<Rightarrow> cfloat \<Rightarrow> bool" where
  "ph_plausible c (Finite x) = (PH_MIN c \<le> x \<and> x \<le> PH_MAX c)"
| "ph_plausible c PInf = False"
| "ph_plausible c MInf = False"
| "ph_plausible c NaN = False"

text \<open>
  \<^verbatim>\<open>(uint16_t)(x * 100)\<close> where the binary32 product is exact and within \<open>0..65535\<close>:
  there it is the product with its fraction dropped, as at 7.5 (750), 7 (700) and
  655 (65500). The sample hardware uses it for every finite value.
\<close>

definition to_uint16 :: "real \<Rightarrow> 16 word" where
  "to_uint16 x = word_of_int (trunc x)"

text \<open>
  Concrete inputs at which the theorems are evaluated. \<^verbatim>\<open>config.h\<close> is not among the
  sources, so the constants are sample values; \<open>example_hw v\<close> is hardware whose
  library answers the finite pH value \<open>v\<close>, and \<open>example_hw_nan\<close> one whose library
  answers NaN.
\<close>

definition example_config :: config where
  "example_config =
     \<lparr>PH_DEFAULT_TEMPERATURE = 25, PH_POWER_PIN = 4, PH_ANALOG_PIN = 34,
      PH_POWER_ON_DELAY_MS = 2000, PH_READ_SAMPLES = 2, PH_READ_DELAY_MS = 10,
      PH_ADC_RESOLUTION = 4095, PH_REFERENCE_VOLTAGE = 33 / 10, PH_MIN = 0, PH_MAX = 14,
      SENSOR_ERROR_PH = Finite (-1), SENSOR_PH_NAME = ''pH''\<rparr>"

definition example_hw :: "real \<Rightarrow> hw" where
  "example_hw v =
     \<lparr>analogRead = (\<lambda>k. 2000), readPH = (\<lambda>voltage temp. Finite v), serial_available = 1,
      scale_to_uint16 = (\<lambda>x. case x of Finite r \<Rightarrow> to_uint16 (r * 100) | _ \<Rightarrow> 0)\<rparr>"

definition example_hw_nan :: hw where
  "example_hw_nan = (example_hw 0)\<lparr>readPH := (\<lambda>voltage temp. NaN)\<rparr>"

definition example_driver :: "bool \<Rightarrow> ph_driver" where
  "example_driver a =
     \<lparr>sensor_available = a, sensor_powered = False, temperature = 25,
      pin_level = (\<lambda>p. False), trace = []\<rparr>"

definition example_build :: "bool \<Rightarrow> bool \<Rightarrow> bool \<Rightarrow> build" where
  "example_build p b d =
     \<lparr>ENABLE_SENSOR_PH = p, ENABLE_SENSOR_BME280 = b, ENABLE_SENSOR_DS18B20 = d,
      SHOW_TTN_DECODER = 1\<rparr>"

text \<open>
  What decoding the fields of a payload means: the battery byte first, then the
  fields of the enabled sensors in the canonical order (pH, external temperature,
  water temperature, humidity, pressure), each read from the offset the fields
  before it leave (a sensor that is not enabled takes no bytes), as a 16-bit
  little-endian value divided by the field's scale.
\<close>

definition u16_le :: "8 word list \<Rightarrow> nat \<Rightarrow> real" where
  "u16_le bs k = real (unat (bs ! k)) + 256 * real (unat (bs ! (k + 1)))"

definition canonical_fields :: "build \<Rightarrow> 8 word list \<Rightarrow> (string \<rightharpoonup> js_value)" where
  "canonical_fields b bs =
     (let o_ph = 1;
          o_ext = o_ph + (if ENABLE_SENSOR_PH b then 2 else 0);
          o_water = o_ext + (if ENABLE_SENSOR_BME280 b then 2 else 0);
          o_hum = o_water + (if ENABLE_SENSOR_DS18B20 b then 2 else 0);
          o_press = o_hum + 2
      in [''battery_percent'' \<mapsto> JsNumber (real (unat (bs ! 0)))]
         ++ (if ENABLE_SENSOR_PH b
             then [''ph'' \<mapsto> JsNumber (u16_le bs o_ph / 100)] else Map.empty)
         ++ (if ENABLE_SENSOR_BME280 b
             then [''temperature_ext'' \<mapsto> JsNumber (u16_le bs o_ext / 100)] else Map.empty)
         ++ (if ENABLE_SENSOR_DS18B20 b
             then [''temperature_water_1m'' \<mapsto> JsNumber (u16_le bs o_water / 100)]
             else Map.empty)
         ++ (if ENABLE_SENSOR_BME280 b
             then [''humidity'' \<mapsto> JsNumber (u16_le bs o_hum / 100),
                   ''pressure'' \<mapsto> JsNumber (u16_le bs o_press / 10)]
             else Map.empty))"

section \<open>Properties of the pH driver\<close>

subsection \<open>Auxiliary facts\<close>

lemma snd_sample_loop:
  "snd (sample_loop c e n i acc) = emit (replicate n (Delay (PH_READ_DELAY_MS c))) (snd acc)"
  by (induction n arbitrary: i acc) (simp_all add: emit_def replicate_append_same)

lemma snd_read_ph_value:
  "snd (read_ph_value c e s) =
     emit (replicate (nat (PH_READ_SAMPLES c)) (Delay (PH_READ_DELAY_MS c)) @
           [Printf ''pH: Lectura ADC promedio = %.1f, Voltaje = %.3f V''
             [ArgFloat (Finite (real (unat (fst (sample_loop c e (nat (PH_READ_SAMPLES c)) 0 (0, s))))
                          / real_of_int (PH_READ_SAMPLES c))),
              ArgFloat (Finite (real (unat (fst (sample_loop c e (nat (PH_READ_SAMPLES c)) 0 (0, s))))
                          / real_of_int (PH_READ_SAMPLES c) / PH_ADC_RESOLUTION c
                          * PH_REFERENCE_VOLTAGE c))]]) s"
  by (simp add: read_ph_value_def split_def Let_def snd_sample_loop emit_def)

lemma read_ph_value_frame:
  "sensor_available (snd (read_ph_value c e s)) = sensor_available s"
  "sensor_powered (snd (read_ph_value c e s)) = sensor_powered s"
  "temperature (snd (read_ph_value c e s)) = temperature s"
  "pin_level (snd (read_ph_value c e s)) = pin_level s"
  by (simp_all add: snd_read_ph_value emit_def)

lemma read_all_fail:
  "\<not> sensor_available s \<or> data = None \<Longrightarrow> sensor_ph_read_all c e s data = (False, s, data)"
  by (simp add: sensor_ph_read_all_def)

lemma read_all_ok:
  assumes "sensor_available s"
  shows "fst (sensor_ph_read_all c e s (Some d)) = True"
    and "snd (snd (sensor_ph_read_all c e s (Some d))) = Some (d\<lparr>ph := ph_reading c e s\<rparr>)"
    and "sensor_available (fst (snd (sensor_ph_read_all c e s (Some d)))) = True"
    and "sensor_powered (fst (snd (sensor_ph_read_all c e s (Some d)))) = False"
    and "pin_level (fst (snd (sensor_ph_read_all c e s (Some d))))
           = (pin_level s)(PH_POWER_PIN c := False)"
    and "temperature (fst (snd (sensor_ph_read_all c e s (Some d)))) = temperature s"
  using assms
  by (simp_all add: sensor_ph_read_all_def ph_reading_def split_def Let_def
        sensor_ph_power_on_def sensor_ph_power_off_def emit_def read_ph_value_frame)

lemma read_all_warning:
  assumes "sensor_available s"
    "float_lt (ph_reading c e s) (PH_MIN c) \<or> float_gt (ph_reading c e s) (PH_MAX c)"
  shows "Printf ''pH: ADVERTENCIA - Lectura fuera de rango: %.2f'' [ArgFloat (ph_reading c e s)]
           \<in> set (new_events s (fst (snd (sensor_ph_read_all c e s (Some d)))))"
  using assms
  by (auto simp add: sensor_ph_read_all_def ph_reading_def split_def Let_def new_events_def
        sensor_ph_power_on_def sensor_ph_power_off_def emit_def snd_read_ph_value)

lemma ph_reading_example: "ph_reading example_config (example_hw v) s = Finite v"
  by (simp add: ph_reading_def read_ph_value_def split_def Let_def example_hw_def)

lemma ph_reading_example_nan: "ph_reading example_config example_hw_nan s = NaN"
  by (simp add: ph_reading_def read_ph_value_def split_def Let_def example_hw_nan_def)

lemma scale_example: "scale_to_uint16 (example_hw v) (Finite r) = to_uint16 (r * 100)"
  by (simp add: example_hw_def)

lemma process_serial_skip:
  "\<not> sensor_available s \<or> serial_available e = 0 \<Longrightarrow> sensor_ph_process_serial c e s = s"
  by (auto simp add: sensor_ph_process_serial_def)

lemma process_serial_run:
  assumes "sensor_available s" "serial_available e \<noteq> 0"
  shows "sensor_available (sensor_ph_process_serial c e s) = True"
    and "sensor_powered (sensor_ph_process_serial c e s) = False"
    and "pin_level (sensor_ph_process_serial c e s) = (pin_level s)(PH_POWER_PIN c := False)"
    and "temperature (sensor_ph_process_serial c e s) = temperature s"
  using assms
  by (simp_all add: sensor_ph_process_serial_def Let_def
        sensor_ph_power_on_def sensor_ph_power_off_def emit_def)

lemma get_payload_skip:
  "\<not> sensor_available s \<or> cfg = None \<Longrightarrow> sensor_ph_get_payload c e s u cfg = (0, s, cfg)"
  by (auto simp add: sensor_ph_get_payload_def)

lemma get_payload_run:
  assumes "sensor_available s"
  shows "sensor_ph_get_payload c e s u (Some p) =
           (2, fst (snd (sensor_ph_read_all c e s (Some u))),
            Some (p\<lparr>buffer := (buffer p)
                     [0 := ucast (drop_bit 8 (scale_to_uint16 e (ph_reading c e s))),
                      1 := ucast (scale_to_uint16 e (ph_reading c e s) AND 0xFF)]\<rparr>))"
  using assms read_all_ok(1,2) [OF assms, of c e u]
  by (simp add: sensor_ph_get_payload_def ph_payload_after_read_def split_def Let_def)

lemma read_all_keeps_available:
  "sensor_available (fst (snd (sensor_ph_read_all c e s data))) = sensor_available s"
  by (cases "\<not> sensor_available s \<or> data = None") (auto simp add: read_all_fail read_all_ok)

lemma get_payload_keeps_available:
  "sensor_available (fst (snd (sensor_ph_get_payload c e s u cfg))) = sensor_available s"
  by (cases "\<not> sensor_available s \<or> cfg = None")
     (auto simp add: get_payload_skip get_payload_run read_all_keeps_available)

lemma process_serial_keeps_available:
  "sensor_available (sensor_ph_process_serial c e s) = sensor_available s"
  by (cases "\<not> sensor_available s \<or> serial_available e = 0")
     (auto simp add: process_serial_skip process_serial_run)

lemma take2_update:
  "2 \<le> length xs \<Longrightarrow> take 2 (xs[0 := a, Suc 0 := b]) = [a, b]"
  by (cases xs; cases "tl xs") auto

lemma drop2_update:
  "drop 2 (xs[0 := a, Suc 0 := b]) = drop 2 xs"
  by (cases xs; cases "tl xs") auto

subsection \<open>Initialisation and retry\<close>

text \<open>
  C10: \<open>sensor_ph_init\<close> returns true from every state and leaves the driver
  available, so \<open>sensor_ph_is_available\<close> is true right after any call of it; the
  driver has no path on which initialisation fails.
\<close>

theorem sensor_ph_init_always_available:
  "fst (sensor_ph_init c s) = True \<and> sensor_ph_is_available (snd (sensor_ph_init c s))"
  by (simp add: sensor_ph_init_def sensor_ph_is_available_def)

text \<open>
  C7: when the driver is available, \<open>sensor_ph_retry_init\<close> returns true and the whole
  state (flags, pins, trace) is the one it was called in. When the driver is
  unavailable it logs the retry and runs \<open>sensor_ph_init\<close>, and the driver is
  available afterwards exactly when that call reports success.
\<close>

theorem sensor_ph_retry_init_noop:
  "(sensor_available s \<longrightarrow> sensor_ph_retry_init c s = (True, s)) \<and>
   (\<not> sensor_available s \<longrightarrow>
      sensor_ph_retry_init c s =
        sensor_ph_init c (emit [Println ''Reintentando inicializacion del sensor de pH...''] s) \<and>
      (sensor_available (snd (sensor_ph_retry_init c s)) \<longleftrightarrow> fst (sensor_ph_retry_init c s)))"
  by (simp add: sensor_ph_retry_init_def sensor_ph_init_def)

theorem sensor_ph_retry_init_noop_witness:
  "sensor_ph_retry_init example_config (example_driver True) = (True, example_driver True) \<and>
   fst (sensor_ph_retry_init example_config (example_driver False)) = True \<and>
   sensor_available (snd (sensor_ph_retry_init example_config (example_driver False)))"
  using sensor_ph_retry_init_noop [of "example_driver True" example_config]
        sensor_ph_retry_init_noop [of "example_driver False" example_config]
  by (simp add: example_driver_def sensor_ph_init_def)

subsection \<open>A read that returns false\<close>

text \<open>
  C4, as amended: \<open>sensor_ph_read_all\<close> returns false only at its guard (the driver
  is unavailable or the record pointer is null), and then it has changed nothing: the
  caller's record, its pH field included, and the driver's state are as they were.
\<close>

theorem sensor_ph_read_all_false_untouched:
  "\<not> fst (sensor_ph_read_all c e s data) \<Longrightarrow>
     (\<not> sensor_available s \<or> data = None) \<and> sensor_ph_read_all c e s data = (False, s, data)"
  by (cases "\<not> sensor_available s \<or> data = None")
     (auto simp add: read_all_fail read_all_ok)

theorem sensor_ph_read_all_false_untouched_witness:
  "\<not> fst (sensor_ph_read_all example_config (example_hw 7) (example_driver False)
            (Some \<lparr>ph = Finite 3\<rparr>)) \<and>
   sensor_ph_read_all example_config (example_hw 7) (example_driver False) (Some \<lparr>ph = Finite 3\<rparr>)
     = (False, example_driver False, Some \<lparr>ph = Finite 3\<rparr>)"
proof -
  have h: "\<not> fst (sensor_ph_read_all example_config (example_hw 7) (example_driver False)
                   (Some \<lparr>ph = Finite 3\<rparr>))"
    by (simp add: sensor_ph_read_all_def example_driver_def)
  from sensor_ph_read_all_false_untouched [OF h] h show ?thesis by simp
qed

text \<open>
  C4 as stated fails: with the driver unavailable the call returns false and the
  record that held pH 7 still holds 7, not the sentinel.
\<close>

theorem sensor_ph_read_all_false_sentinel_counterexample:
  "fst (sensor_ph_read_all example_config (example_hw 7) (example_driver False)
          (Some \<lparr>ph = Finite 7\<rparr>)) = False \<and>
   map_option ph (snd (snd (sensor_ph_read_all example_config (example_hw 7)
                              (example_driver False) (Some \<lparr>ph = Finite 7\<rparr>))))
     \<noteq> Some (SENSOR_ERROR_PH example_config)"
  by (simp add: sensor_ph_read_all_def example_driver_def example_config_def)

subsection \<open>A reading outside the plausible range\<close>

text \<open>
  C6, as amended: when the driver is available and the value read compares below
  \<^verbatim>\<open>PH_MIN\<close> or above \<^verbatim>\<open>PH_MAX\<close>, \<open>sensor_ph_read_all\<close> returns true, stores that
  value in the record and logs the out-of-range warning during the call. It returns
  false exactly at its guard (driver unavailable or null record pointer), whatever
  the reading is.
\<close>

theorem sensor_ph_read_all_out_of_range:
  "(sensor_available s \<and>
    (float_lt (ph_reading c e s) (PH_MIN c) \<or> float_gt (ph_reading c e s) (PH_MAX c)) \<longrightarrow>
      fst (sensor_ph_read_all c e s (Some d)) = True \<and>
      snd (snd (sensor_ph_read_all c e s (Some d))) = Some (d\<lparr>ph := ph_reading c e s\<rparr>) \<and>
      Printf ''pH: ADVERTENCIA - Lectura fuera de rango: %.2f'' [ArgFloat (ph_reading c e s)]
        \<in> set (new_events s (fst (snd (sensor_ph_read_all c e s (Some d)))))) \<and>
   (\<not> fst (sensor_ph_read_all c e s data) \<longleftrightarrow> \<not> sensor_available s \<or> data = None)"
proof -
  have "\<not> fst (sensor_ph_read_all c e s data) \<longleftrightarrow> \<not> sensor_available s \<or> data = None"
    by (cases "\<not> sensor_available s \<or> data = None") (auto simp add: read_all_fail read_all_ok)
  then show ?thesis
    using read_all_ok(1,2) [of s c e d] read_all_warning [of s c e d] by blast
qed

theorem sensor_ph_read_all_out_of_range_witness:
  "float_gt (ph_reading example_config (example_hw 15) (example_driver True))
     (PH_MAX example_config) \<and>
   fst (sensor_ph_read_all example_config (example_hw 15) (example_driver True)
          (Some \<lparr>ph = Finite 0\<rparr>)) = True \<and>
   snd (snd (sensor_ph_read_all example_config (example_hw 15) (example_driver True)
               (Some \<lparr>ph = Finite 0\<rparr>)))
     = Some \<lparr>ph = Finite 15\<rparr> \<and>
   Printf ''pH: ADVERTENCIA - Lectura fuera de rango: %.2f'' [ArgFloat (Finite 15)]
     \<in> set (new_events (example_driver True)
              (fst (snd (sensor_ph_read_all example_config (example_hw 15)
                           (example_driver True) (Some \<lparr>ph = Finite 0\<rparr>)))))"
  using sensor_ph_read_all_out_of_range
          [of "example_driver True" example_config "example_hw 15" "\<lparr>ph = Finite 0\<rparr>"
              "Some \<lparr>ph = Finite 0\<rparr>"]
  by (simp add: ph_reading_example) (simp add: example_config_def example_driver_def)

text \<open>
  C6 as stated fails at a NaN reading, which is not within the plausible range: the
  call returns true and stores NaN, and the events of the call hold no warning.
\<close>

theorem sensor_ph_read_all_nan_counterexample:
  "\<not> ph_plausible example_config
       (ph_reading example_config example_hw_nan (example_driver True)) \<and>
   fst (sensor_ph_read_all example_config example_hw_nan (example_driver True)
          (Some \<lparr>ph = Finite 0\<rparr>)) = True \<and>
   snd (snd (sensor_ph_read_all example_config example_hw_nan (example_driver True)
               (Some \<lparr>ph = Finite 0\<rparr>)))
     = Some \<lparr>ph = NaN\<rparr> \<and>
   new_events (example_driver True)
     (fst (snd (sensor_ph_read_all example_config example_hw_nan (example_driver True)
                  (Some \<lparr>ph = Finite 0\<rparr>))))
     = [PinMode 4 OUTPUT,
        Println ''pH: Alimentacion de sensores activada'',
        Printf ''pH: Esperando %d ms para estabilizacion...'' [ArgInt 2000],
        Delay 2000, Delay 10, Delay 10,
        Printf ''pH: Lectura ADC promedio = %.1f, Voltaje = %.3f V''
          [ArgFloat (Finite 2000), ArgFloat (Finite (440 / 273))],
        Printf ''pH: Valor de pH = %.2f'' [ArgFloat NaN],
        Println ''pH: Alimentacion de sensores desactivada'',
        Delay 1000]"
proof -
  have a: "sensor_available (example_driver True)"
    by (simp add: example_driver_def)
  have n: "nat (PH_READ_SAMPLES example_config) = Suc (Suc 0)"
    by (simp add: example_config_def)
  have ev: "new_events (example_driver True)
     (fst (snd (sensor_ph_read_all example_config example_hw_nan (example_driver True)
                  (Some \<lparr>ph = Finite 0\<rparr>))))
     = [PinMode 4 OUTPUT,
        Println ''pH: Alimentacion de sensores activada'',
        Printf ''pH: Esperando %d ms para estabilizacion...'' [ArgInt 2000],
        Delay 2000, Delay 10, Delay 10,
        Printf ''pH: Lectura ADC promedio = %.1f, Voltaje = %.3f V''
          [ArgFloat (Finite 2000), ArgFloat (Finite (440 / 273))],
        Printf ''pH: Valor de pH = %.2f'' [ArgFloat NaN],
        Println ''pH: Alimentacion de sensores desactivada'',
        Delay 1000]"
    by (simp add: sensor_ph_read_all_def read_ph_value_def split_def Let_def new_events_def
          sensor_ph_power_on_def sensor_ph_power_off_def emit_def n
          example_driver_def example_hw_nan_def example_hw_def)
       (simp add: example_config_def)
  show ?thesis
    by (simp add: read_all_ok [OF a] ph_reading_example_nan ev)
qed

subsection \<open>The power rail\<close>

text \<open>
  C8: the paths of \<open>sensor_ph_read_all\<close> and \<open>sensor_ph_process_serial\<close> that pass
  the guard are the ones that call \<open>sensor_ph_power_on\<close>; on them the function returns
  with \<open>sensor_powered\<close> false and the power pin low. A path that stops at the guard
  returns the state it was called in. So a rail that is off at the call is off at
  the return, on every path.
\<close>

theorem sensor_ph_power_rail_released:
  "(sensor_available s \<longrightarrow>
      \<not> sensor_powered (fst (snd (sensor_ph_read_all c e s (Some d)))) \<and>
      \<not> pin_level (fst (snd (sensor_ph_read_all c e s (Some d)))) (PH_POWER_PIN c)) \<and>
   (\<not> sensor_available s \<or> data = None \<longrightarrow> fst (snd (sensor_ph_read_all c e s data)) = s) \<and>
   (sensor_available s \<and> serial_available e \<noteq> 0 \<longrightarrow>
      \<not> sensor_powered (sensor_ph_process_serial c e s) \<and>
      \<not> pin_level (sensor_ph_process_serial c e s) (PH_POWER_PIN c)) \<and>
   (\<not> sensor_available s \<or> serial_available e = 0 \<longrightarrow> sensor_ph_process_serial c e s = s) \<and>
   (\<not> sensor_powered s \<longrightarrow>
      \<not> sensor_powered (fst (snd (sensor_ph_read_all c e s data))) \<and>
      \<not> sensor_powered (sensor_ph_process_serial c e s))"
proof -
  have a: "\<not> sensor_powered s \<Longrightarrow> \<not> sensor_powered (fst (snd (sensor_ph_read_all c e s data)))"
    by (cases "\<not> sensor_available s \<or> data = None") (auto simp add: read_all_fail read_all_ok)
  have b: "\<not> sensor_powered s \<Longrightarrow> \<not> sensor_powered (sensor_ph_process_serial c e s)"
    by (cases "\<not> sensor_available s \<or> serial_available e = 0")
       (auto simp add: process_serial_skip process_serial_run)
  show ?thesis
    using a b by (auto simp add: read_all_fail read_all_ok process_serial_skip process_serial_run)
qed

theorem sensor_ph_power_rail_released_witness:
  "\<not> sensor_powered (fst (snd (sensor_ph_read_all example_config (example_hw 7)
        (example_driver True) (Some \<lparr>ph = Finite 0\<rparr>)))) \<and>
   \<not> pin_level (fst (snd (sensor_ph_read_all example_config (example_hw 7)
        (example_driver True) (Some \<lparr>ph = Finite 0\<rparr>)))) (PH_POWER_PIN example_config) \<and>
   \<not> sensor_powered (sensor_ph_process_serial example_config (example_hw 7) (example_driver True)) \<and>
   \<not> pin_level (sensor_ph_process_serial example_config (example_hw 7) (example_driver True))
        (PH_POWER_PIN example_config) \<and>
   sensor_powered (sensor_ph_power_on example_config (example_driver True))"
  using sensor_ph_power_rail_released
          [of "example_driver True" example_config "example_hw 7" "\<lparr>ph = Finite 0\<rparr>" "Some \<lparr>ph = Finite 0\<rparr>"]
  by (simp add: example_driver_def example_hw_def sensor_ph_power_on_def emit_def)

subsection \<open>Availability is not changed by a read\<close>

text \<open>
  C9: \<open>sensor_ph_read_all\<close>, \<open>sensor_ph_get_payload\<close> and
  \<open>sensor_ph_process_serial\<close> return with \<open>sensor_available\<close> as it was at the
  call, in every case; so does \<open>sensor_ph_set_temperature\<close>. The remaining functions
  that change the state are \<open>sensor_ph_init\<close>, \<open>sensor_ph_retry_init\<close> and
  \<open>sensor_ph_set_available_for_testing\<close>.
\<close>

theorem sensor_ph_reads_keep_availability:
  "sensor_available (fst (snd (sensor_ph_read_all c e s data))) = sensor_available s \<and>
   sensor_available (fst (snd (sensor_ph_get_payload c e s u cfg))) = sensor_available s \<and>
   sensor_available (sensor_ph_process_serial c e s) = sensor_available s \<and>
   sensor_available (sensor_ph_set_temperature temp s) = sensor_available s"
  by (simp add: read_all_keeps_available get_payload_keeps_available
        process_serial_keeps_available sensor_ph_set_temperature_def emit_def)

theorem sensor_ph_reads_keep_availability_witness:
  "sensor_available (fst (snd (sensor_ph_read_all example_config (example_hw 7)
      (example_driver True) (Some \<lparr>ph = Finite 0\<rparr>)))) \<and>
   sensor_available (fst (snd (sensor_ph_get_payload example_config (example_hw 7)
      (example_driver True) \<lparr>ph = Finite 0\<rparr> (Some \<lparr>buffer = [0, 0]\<rparr>)))) \<and>
   sensor_available (sensor_ph_process_serial example_config (example_hw 7) (example_driver True)) \<and>
   \<not> sensor_available (fst (snd (sensor_ph_read_all example_config (example_hw 7)
      (example_driver False) (Some \<lparr>ph = Finite 0\<rparr>))))"
  using sensor_ph_reads_keep_availability
          [of example_config "example_hw 7" "example_driver True" "Some \<lparr>ph = Finite 0\<rparr>"
              "\<lparr>ph = Finite 0\<rparr>" "Some \<lparr>buffer = [0, 0]\<rparr>" 0]
        sensor_ph_reads_keep_availability
          [of example_config "example_hw 7" "example_driver False" "Some \<lparr>ph = Finite 0\<rparr>"
              "\<lparr>ph = Finite 0\<rparr>" "Some \<lparr>buffer = [0, 0]\<rparr>" 0]
  by (simp add: example_driver_def)

subsection \<open>The payload slice\<close>

text \<open>
  C5: \<open>sensor_ph_get_payload\<close> returns 0 exactly when the driver is unavailable or
  the configuration pointer is null. When the driver is available (and the pointer
  is not null) it returns 2 and the first two bytes of the buffer hold the encoding
  of the value read. The code after the read returns 2 and writes two bytes whatever
  the read returned: they encode the record's value after a read that returned true
  and \<^verbatim>\<open>SENSOR_ERROR_PH\<close> after one that returned false, and the rest of the buffer
  is as it was.
\<close>

theorem sensor_ph_get_payload_width:
  "(fst (sensor_ph_get_payload c e s u cfg) = 0 \<longleftrightarrow> \<not> sensor_available s \<or> cfg = None) \<and>
   (sensor_available s \<longrightarrow>
      fst (sensor_ph_get_payload c e s u (Some p)) = 2 \<and>
      (2 \<le> length (buffer p) \<longrightarrow>
         map_option (take 2 \<circ> buffer) (snd (snd (sensor_ph_get_payload c e s u (Some p))))
           = Some [ucast (drop_bit 8 (scale_to_uint16 e (ph_reading c e s))),
                   ucast (scale_to_uint16 e (ph_reading c e s) AND 0xFF)])) \<and>
   fst (ph_payload_after_read c e ok d p) = 2 \<and>
   (2 \<le> length (buffer p) \<longrightarrow>
      take 2 (buffer (snd (ph_payload_after_read c e ok d p)))
        = [ucast (drop_bit 8 (scale_to_uint16 e (if ok then ph d else SENSOR_ERROR_PH c))),
           ucast (scale_to_uint16 e (if ok then ph d else SENSOR_ERROR_PH c) AND 0xFF)] \<and>
      drop 2 (buffer (snd (ph_payload_after_read c e ok d p))) = drop 2 (buffer p))"
proof -
  have z: "fst (sensor_ph_get_payload c e s u cfg) = 0 \<longleftrightarrow> \<not> sensor_available s \<or> cfg = None"
    by (cases "\<not> sensor_available s \<or> cfg = None")
       (auto simp add: get_payload_skip get_payload_run)
  have w: "sensor_available s \<Longrightarrow> fst (sensor_ph_get_payload c e s u (Some p)) = 2"
    by (simp add: get_payload_run)
  have b: "sensor_available s \<Longrightarrow> 2 \<le> length (buffer p) \<Longrightarrow>
      map_option (take 2 \<circ> buffer) (snd (snd (sensor_ph_get_payload c e s u (Some p))))
        = Some [ucast (drop_bit 8 (scale_to_uint16 e (ph_reading c e s))),
                ucast (scale_to_uint16 e (ph_reading c e s) AND 0xFF)]"
    by (simp add: get_payload_run take2_update)
  have r: "fst (ph_payload_after_read c e ok d p) = 2"
    by (simp add: ph_payload_after_read_def Let_def)
  have t: "2 \<le> length (buffer p) \<Longrightarrow>
      take 2 (buffer (snd (ph_payload_after_read c e ok d p)))
        = [ucast (drop_bit 8 (scale_to_uint16 e (if ok then ph d else SENSOR_ERROR_PH c))),
           ucast (scale_to_uint16 e (if ok then ph d else SENSOR_ERROR_PH c) AND 0xFF)]"
    by (simp add: ph_payload_after_read_def Let_def take2_update)
  have k: "drop 2 (buffer (snd (ph_payload_after_read c e ok d p))) = drop 2 (buffer p)"
    by (simp add: ph_payload_after_read_def Let_def drop2_update)
  from z w b r t k show ?thesis by simp
qed

text \<open>
  The witness: 0 when the driver is unavailable and when the pointer is null; at a
  reading of 7, two bytes that encode 700; after a read that returned false (with
  655 as the sentinel), two bytes that encode 65500, not the record's 7.
\<close>

theorem sensor_ph_get_payload_width_witness:
  "fst (sensor_ph_get_payload example_config (example_hw 7) (example_driver False)
          \<lparr>ph = Finite 0\<rparr> (Some \<lparr>buffer = [0, 0]\<rparr>)) = 0 \<and>
   fst (sensor_ph_get_payload example_config (example_hw 7) (example_driver True)
          \<lparr>ph = Finite 0\<rparr> (None :: payload_config option)) = 0 \<and>
   fst (sensor_ph_get_payload example_config (example_hw 7) (example_driver True)
          \<lparr>ph = Finite 0\<rparr> (Some \<lparr>buffer = [0, 0]\<rparr>)) = 2 \<and>
   map_option (take 2 \<circ> buffer)
     (snd (snd (sensor_ph_get_payload example_config (example_hw 7) (example_driver True)
                  \<lparr>ph = Finite 0\<rparr> (Some \<lparr>buffer = [0, 0]\<rparr>)))) = Some [0x02, 0xBC] \<and>
   fst (ph_payload_after_read (example_config\<lparr>SENSOR_ERROR_PH := Finite 655\<rparr>) (example_hw 7)
          False \<lparr>ph = Finite 7\<rparr> \<lparr>buffer = [0, 0, 9]\<rparr>) = 2 \<and>
   take 2 (buffer (snd (ph_payload_after_read (example_config\<lparr>SENSOR_ERROR_PH := Finite 655\<rparr>)
                          (example_hw 7) False \<lparr>ph = Finite 7\<rparr> \<lparr>buffer = [0, 0, 9]\<rparr>)))
     = [0xFF, 0xDC] \<and>
   drop 2 (buffer (snd (ph_payload_after_read (example_config\<lparr>SENSOR_ERROR_PH := Finite 655\<rparr>)
                          (example_hw 7) False \<lparr>ph = Finite 7\<rparr> \<lparr>buffer = [0, 0, 9]\<rparr>)))
     = [9]"
proof -
  have t: "to_uint16 700 = 700" "to_uint16 65500 = 65500"
    by (simp_all add: to_uint16_def trunc_def)
  have a: "sensor_available (example_driver True)" "\<not> sensor_available (example_driver False)"
    by (simp_all add: example_driver_def)
  show ?thesis
    using sensor_ph_get_payload_width
            [of example_config "example_hw 7" "example_driver False" "\<lparr>ph = Finite 0\<rparr>"
                "Some \<lparr>buffer = [0, 0]\<rparr>" "\<lparr>buffer = [0, 0]\<rparr>" True "\<lparr>ph = Finite 0\<rparr>"]
          sensor_ph_get_payload_width
            [of example_config "example_hw 7" "example_driver True" "\<lparr>ph = Finite 0\<rparr>"
                "None :: payload_config option" "\<lparr>buffer = [0, 0]\<rparr>" True "\<lparr>ph = Finite 0\<rparr>"]
          sensor_ph_get_payload_width
            [of "example_config\<lparr>SENSOR_ERROR_PH := Finite 655\<rparr>" "example_hw 7"
                "example_driver True" "\<lparr>ph = Finite 0\<rparr>"
                "None :: payload_config option" "\<lparr>buffer = [0, 0, 9]\<rparr>" False "\<lparr>ph = Finite 7\<rparr>"]
    by (simp add: a ph_reading_example scale_example t)
qed

text \<open>
  C1, evaluated at pH 7.5 (in range, encoded as \<open>750 = 0x02EE\<close>): the buffer holds
  \<open>0x02\<close> at index 0 and \<open>0xEE\<close> at index 1. The high byte comes first; the claim puts
  the low byte first.
\<close>

theorem sensor_ph_get_payload_high_byte_first:
  "PH_MIN example_config \<le> 15 / 2 \<and> 15 / 2 \<le> PH_MAX example_config \<and>
   to_uint16 (15 / 2 * 100) = 0x02EE \<and>
   map_option buffer
     (snd (snd (sensor_ph_get_payload example_config (example_hw (15 / 2)) (example_driver True)
                  \<lparr>ph = Finite 0\<rparr> (Some \<lparr>buffer = [0, 0]\<rparr>)))) = Some [0x02, 0xEE]"
proof -
  have t: "to_uint16 750 = 750"
    by (simp add: to_uint16_def trunc_def)
  have a: "sensor_available (example_driver True)"
    by (simp add: example_driver_def)
  show ?thesis
    by (simp add: get_payload_run [OF a] ph_reading_example scale_example t)
       (simp add: example_config_def)
qed

text \<open>
  C2, evaluated at pH 7.5: the routine emitted by \<open>print_ph_decoder\<close> reads the two
  bytes \<open>sensor_ph_get_payload\<close> wrote as \<open>0x02 | (0xEE << 8) = 60930\<close> and reports
  609.3, which is not within 0.01 of 7.5.
\<close>

theorem sensor_ph_round_trip_fails:
  "PH_MIN example_config \<le> 15 / 2 \<and> 15 / 2 \<le> PH_MAX example_config \<and>
   decode_ph (buffer (the (snd (snd (sensor_ph_get_payload example_config (example_hw (15 / 2))
                                      (example_driver True) \<lparr>ph = Finite 0\<rparr> (Some \<lparr>buffer = [0, 0]\<rparr>))))))
     = Some (JsNumber (6093 / 10)) \<and>
   \<not> \<bar>6093 / 10 - 15 / 2\<bar> \<le> (1 / 100 :: real)"
proof -
  have t: "to_uint16 750 = 750"
    by (simp add: to_uint16_def trunc_def)
  have a: "sensor_available (example_driver True)"
    by (simp add: example_driver_def)
  have d: "decode_ph [0x02, 0xEE] = Some (JsNumber (6093 / 10))"
    by (simp add: decode_ph_def print_ph_decoder_def byte_at_def trunc_def Let_def)
  show ?thesis
    by (simp add: get_payload_run [OF a] ph_reading_example scale_example t d)
       (simp add: example_config_def)
qed

section \<open>Properties of the emitted decoder\<close>

subsection \<open>Auxiliary facts\<close>

lemmas gen_defs =
  generate_and_print_ttn_decoder_def print_configuration_info_def print_decoder_header_def
  print_payload_validation_def print_battery_percent_decoder_def print_ph_decoder_def
  print_temperature_ext_decoder_def print_temperature_water_decoder_def
  print_humidity_decoder_def print_pressure_decoder_def print_decoder_footer_def

lemma expected_width_le: "expected_width b \<le> 11"
  by (simp add: expected_width_def gen_defs)

lemma decodeUplink_mismatch:
  assumes "SHOW_TTN_DECODER b \<noteq> 0" "length input \<noteq> 12"
  shows "decodeUplink b input =
           Some \<lparr>res_data = Map.empty,
                 res_warnings = Some [''Payload size should be 12 bytes, got '' @ decimal (length input)],
                 res_errors = Some []\<rparr>"
  using assms by (simp add: decodeUplink_def gen_defs del: decimal.simps)

lemma sint_small: "0 \<le> k \<Longrightarrow> k < 2 ^ 31 \<Longrightarrow> sint (word_of_int k :: 32 word) = k"
  by (simp add: sint_sbintrunc' signed_take_bit_int_eq_self)

lemma to_int32_byte: "to_int32 (JsNumber (real (unat (a :: 8 word)))) = ucast a"
  by (simp add: trunc_def) (metis ceiling_of_int floor_of_int of_int_uint)

lemma u16_word:
  "sint ((ucast (a :: 8 word) :: 32 word) OR push_bit 8 (ucast (b :: 8 word)))
     = uint a + 256 * uint b"
proof -
  have d: "(ucast a :: 32 word) OR push_bit 8 (ucast b) = ucast a + push_bit 8 (ucast b)"
    by (rule disjunctive_add [symmetric]) (auto simp add: bit_simps dest: bit_imp_le_length)
  have a8: "uint a < 256" and b8: "uint b < 256"
    using uint_bounded [of a] uint_bounded [of b] by simp_all
  have w: "(ucast a :: 32 word) + push_bit 8 (ucast b) = word_of_int (uint a + 256 * uint b)"
    by (simp add: push_bit_eq_mult)
  have "0 \<le> uint a + 256 * uint b" "uint a + 256 * uint b < 2 ^ 31"
    using a8 b8 by simp_all
  then have "sint (word_of_int (uint a + 256 * uint b) :: 32 word) = uint a + 256 * uint b"
    by (rule sint_small)
  then show ?thesis by (simp only: d w)
qed

lemma exec_u16:
  assumes "j = i + 1" "j < length bs"
  shows "real_of_int (sint (to_int32 (byte_at bs i) OR push_bit 8 (to_int32 (byte_at bs j))))
           = u16_le bs i"
proof -
  have "byte_at bs i = JsNumber (real (unat (bs ! i)))" "byte_at bs j = JsNumber (real (unat (bs ! j)))"
    using assms by (simp_all add: byte_at_def)
  then show ?thesis
    using assms by (simp only: to_int32_byte u16_word u16_le_def) simp
qed

lemma exec_u16_signed:
  assumes "j = Suc i" "j < length bs"
  shows "(signed (to_int32 (byte_at bs i) OR push_bit 8 (to_int32 (byte_at bs j))) :: real)
           = u16_le bs i"
  using exec_u16 [of j i bs] assms by simp

lemma decodeUplink_match:
  assumes "SHOW_TTN_DECODER b \<noteq> 0" "length input = 12"
  shows "decodeUplink b input =
           Some \<lparr>res_data = canonical_fields b input, res_warnings = None, res_errors = None\<rparr>"
proof -
  have b0: "byte_at input 0 = JsNumber (real (unat (input ! 0)))"
    using assms by (simp add: byte_at_def)
  show ?thesis
    using assms
    by (cases "ENABLE_SENSOR_PH b"; cases "ENABLE_SENSOR_BME280 b"; cases "ENABLE_SENSOR_DS18B20 b")
       (simp_all add: decodeUplink_def gen_defs canonical_fields_def Let_def exec_u16_signed b0)
qed

subsection \<open>The length check\<close>

text \<open>
  C3, as amended: there is one length, the same for every sensor selection, against
  which every emitted routine checks the payload. When the payload has another
  length the routine returns at once: one warning that ends with the received
  length, no error, and an empty \<open>data\<close> object, because the check stands before the
  field decoders. When the payload has that length the routine returns no warning
  and exactly the fields of \<open>canonical_fields\<close>: the battery byte and the values of
  the enabled sensors, each decoded from its offset, little-endian, with its scale.
\<close>

theorem decoder_length_check_fixed:
  "\<exists>n. \<forall>b input. SHOW_TTN_DECODER b \<noteq> 0 \<longrightarrow>
     (length input \<noteq> n \<longrightarrow>
        (\<exists>w. decodeUplink b input =
                Some \<lparr>res_data = Map.empty,
                      res_warnings = Some [w @ decimal (length input)],
                      res_errors = Some []\<rparr>)) \<and>
     (length input = n \<longrightarrow>
        decodeUplink b input =
          Some \<lparr>res_data = canonical_fields b input,
                res_warnings = None, res_errors = None\<rparr>)"
proof (rule exI [of _ 12], intro allI impI conjI)
  fix b :: build and input :: "8 word list"
  assume "SHOW_TTN_DECODER b \<noteq> 0" "length input \<noteq> 12"
  then show "\<exists>w. decodeUplink b input =
                Some \<lparr>res_data = Map.empty,
                      res_warnings = Some [w @ decimal (length input)],
                      res_errors = Some []\<rparr>"
    using decodeUplink_mismatch by blast
next
  fix b :: build and input :: "8 word list"
  assume "SHOW_TTN_DECODER b \<noteq> 0" "length input = 12"
  then show "decodeUplink b input =
          Some \<lparr>res_data = canonical_fields b input,
                res_warnings = None, res_errors = None\<rparr>"
    by (rule decodeUplink_match)
qed

text \<open>
  The witness, for the build with only the pH sensor: a payload of three bytes gets
  the warning and no field; one of twelve bytes is decoded to battery 87 and pH 7.5
  (bytes \<open>0xEE 0x02\<close>, 750 read low byte first).
\<close>

theorem decoder_length_check_fixed_witness:
  "SHOW_TTN_DECODER (example_build True False False) \<noteq> 0 \<and>
   (\<exists>w. decodeUplink (example_build True False False) [87, 0xEE, 0x02]
           = Some \<lparr>res_data = Map.empty, res_warnings = Some [w @ ''3''],
                   res_errors = Some []\<rparr>) \<and>
   decodeUplink (example_build True False False) [87, 0xEE, 0x02, 0, 0, 0, 0, 0, 0, 0, 0, 0]
     = Some \<lparr>res_data = [''battery_percent'' \<mapsto> JsNumber 87, ''ph'' \<mapsto> JsNumber (15 / 2)],
             res_warnings = None, res_errors = None\<rparr>"
proof -
  let ?b = "example_build True False False"
  let ?long = "[87, 0xEE, 0x02, 0, 0, 0, 0, 0, 0, 0, 0, 0] :: 8 word list"
  let ?short = "[87, 0xEE, 0x02] :: 8 word list"
  have h: "SHOW_TTN_DECODER ?b \<noteq> 0"
    by (simp add: example_build_def)
  have f: "canonical_fields ?b ?long
             = [''battery_percent'' \<mapsto> JsNumber 87, ''ph'' \<mapsto> JsNumber (15 / 2)]"
    by (simp add: canonical_fields_def example_build_def u16_le_def Let_def)
  from decoder_length_check_fixed obtain n where
    p: "\<And>b input. SHOW_TTN_DECODER b \<noteq> 0 \<Longrightarrow>
          (length input \<noteq> n \<longrightarrow>
             (\<exists>w. decodeUplink b input =
                     Some \<lparr>res_data = Map.empty,
                           res_warnings = Some [w @ decimal (length input)],
                           res_errors = Some []\<rparr>)) \<and>
          (length input = n \<longrightarrow>
             decodeUplink b input =
               Some \<lparr>res_data = canonical_fields b input,
                     res_warnings = None, res_errors = None\<rparr>)"
    by blast
  have e: "decodeUplink ?b ?long
             = Some \<lparr>res_data = canonical_fields ?b ?long, res_warnings = None, res_errors = None\<rparr>"
    by (rule decodeUplink_match [OF h]) simp
  have n: "n = 12"
  proof (rule ccontr)
    assume "n \<noteq> 12"
    then have "length ?long \<noteq> n" by simp
    with p [OF h, of ?long] e show False by auto
  qed
  from p [OF h, of ?short] n
  have s: "\<exists>w. decodeUplink ?b ?short
                 = Some \<lparr>res_data = Map.empty, res_warnings = Some [w @ ''3''],
                         res_errors = Some []\<rparr>"
    by simp
  from p [OF h, of ?long] n f
  have l: "decodeUplink ?b ?long
             = Some \<lparr>res_data = [''battery_percent'' \<mapsto> JsNumber 87, ''ph'' \<mapsto> JsNumber (15 / 2)],
                     res_warnings = None, res_errors = None\<rparr>"
    by simp
  from h s l show ?thesis by blast
qed

text \<open>
  C3 as stated fails. The build with only the pH sensor implies a width of 3 bytes
  (battery and pH); on a payload of exactly 3 bytes the routine warns and reports
  no field. With all sensors enabled (width 11) a payload of 5 bytes is a mismatch,
  and the routine reports no field either.
\<close>

theorem decoder_length_check_counterexample:
  "expected_width (example_build True False False) = 3 \<and>
   length [87, 0xEE, 0x02 :: 8 word] = 3 \<and>
   decodeUplink (example_build True False False) [87, 0xEE, 0x02]
     = Some \<lparr>res_data = Map.empty,
             res_warnings = Some [''Payload size should be 12 bytes, got 3''],
             res_errors = Some []\<rparr> \<and>
   expected_width (example_build True True True) = 11 \<and>
   map_option res_data (decodeUplink (example_build True True True) [87, 0xEE, 0x02, 0x57, 0x08])
     = Some Map.empty"
  by (simp add: expected_width_def decodeUplink_def gen_defs example_build_def)

end
